theory Spec2Isabelle
  imports Main
begin

section \<open>The Float Engine\<close>

text \<open>
  The library works on Go's \<^verbatim>\<open>math/big.Float\<close>, which the repository imports and does
  not define. A Float has a precision, a rounding mode, a form (zero, finite, infinite), a
  sign bit and, when finite, a magnitude. The magnitude is kept here as an odd integer
  \<open>fmant\<close> and a binary exponent \<open>fexp\<close>, standing for \<open>fmant * 2 ^ fexp\<close>; the
  exponent that \<^verbatim>\<open>MantExp\<close> reports (mantissa in [0.5, 1)) is \<open>fexp + blen fmant\<close>.
  Arithmetic is exact on these integers and then rounded once to the receiver's precision
  in the receiver's mode, which is what the package documents for Add, Sub, Mul, Quo and
  Sqrt. The accuracy field is left out: the library never reads it.
\<close>

datatype RoundingMode =
  ToNearestEven | ToNearestAway | ToZero | AwayFromZero | ToNegativeInf | ToPositiveInf

datatype form = Fzero | Ffinite | Finf

record Float =
  fprec :: nat
  fmode :: RoundingMode
  fform :: form
  fneg :: bool
  fmant :: int
  fexp :: int

datatype error =
  ErrNaN string
| BigErrNaN string
| Panic string

definition MaxExp :: int where "MaxExp = 2147483647"
definition MinExp :: int where "MinExp = - 2147483648"
definition MaxPrec :: nat where "MaxPrec = 4294967295"

text \<open>\<open>new(big.Float)\<close>: the zero value, +0 with precision 0 and mode ToNearestEven.\<close>

definition new_Float :: Float where
  "new_Float = \<lparr>fprec = 0, fmode = ToNearestEven, fform = Fzero, fneg = False, fmant = 0, fexp = 0\<rparr>"

definition setval :: "Float \<Rightarrow> form \<Rightarrow> bool \<Rightarrow> int \<Rightarrow> int \<Rightarrow> Float" where
  "setval z fo ng m e = z\<lparr>fform := fo, fneg := ng, fmant := m, fexp := e\<rparr>"

text \<open>Bit length of a positive integer.\<close>

function blen :: "int \<Rightarrow> nat" where
  "blen n = (if n \<le> 0 then 0 else Suc (blen (n div 2)))"
  by pat_completeness auto
termination
  by (relation "measure nat") auto

declare blen.simps [simp del]

text \<open>Canonical magnitude: trailing zero bits of the mantissa move into the exponent.\<close>

function trim :: "int \<Rightarrow> int \<Rightarrow> int \<times> int" where
  "trim m e = (if m \<noteq> 0 \<and> even m then trim (m div 2) (e + 1) else (m, e))"
  by pat_completeness auto
termination
  by (relation "measure (\<lambda>(m, e). nat \<bar>m\<bar>)") auto

declare trim.simps [simp del]

text \<open>Integer square root with remainder, two bits of the argument per step: the result
  \<open>(r, m)\<close> has \<open>r * r + m = n\<close> and \<open>0 \<le> m \<le> 2 * r\<close>.\<close>

function sqrtrem :: "int \<Rightarrow> int \<times> int" where
  "sqrtrem n =
     (if n \<le> 0 then (0, 0)
      else
        let rm = sqrtrem (n div 4);
            m' = 4 * snd rm + n mod 4;
            t = 4 * fst rm + 1
        in if t \<le> m' then (2 * fst rm + 1, m' - t) else (2 * fst rm, m'))"
  by pat_completeness auto
termination
  by (relation "measure nat") auto

declare sqrtrem.simps [simp del]

text \<open>
  The increment decision of \<^verbatim>\<open>Float.round\<close>, taken only when a round bit or a sticky bit is
  set: \<open>rbit\<close> is the first dropped bit, \<open>sbit\<close> says that a later dropped bit is set.
\<close>

definition round_inc :: "RoundingMode \<Rightarrow> bool \<Rightarrow> bool \<Rightarrow> bool \<Rightarrow> bool \<Rightarrow> bool" where
  "round_inc md ng lsb_odd rbit sbit =
     (case md of
        ToNegativeInf \<Rightarrow> ng
      | ToZero \<Rightarrow> False
      | ToNearestEven \<Rightarrow> rbit \<and> (sbit \<or> lsb_odd)
      | ToNearestAway \<Rightarrow> rbit
      | AwayFromZero \<Rightarrow> True
      | ToPositiveInf \<Rightarrow> \<not> ng)"

text \<open>
  \<^verbatim>\<open>setExpAndRound\<close>: the magnitude \<open>m * 2 ^ e\<close> (plus a nonzero amount below \<open>2 ^ e\<close> when
  \<open>sticky\<close>) rounded to \<open>p\<close> bits. An exponent below MinExp underflows to zero, one above
  MaxExp overflows to infinity, as does a mantissa that carries out at MaxExp. With
  \<open>sticky\<close> the caller supplies at least \<open>p + 1\<close> bits in \<open>m\<close>.
\<close>

definition fround :: "nat \<Rightarrow> RoundingMode \<Rightarrow> bool \<Rightarrow> int \<Rightarrow> int \<Rightarrow> bool \<Rightarrow> form \<times> int \<times> int" where
  "fround p md ng m e sticky =
     (let n = blen m; E = e + int n in
      if E < MinExp then (Fzero, 0, 0)
      else if E > MaxExp then (Finf, 0, 0)
      else
        let q = (m * 2 ^ (p + 2)) div 2 ^ (n + 2);
            r = (m * 2 ^ (p + 2)) mod 2 ^ (n + 2);
            rbit = (r \<ge> 2 ^ (n + 1));
            sbit = (r mod 2 ^ (n + 1) \<noteq> 0 \<or> sticky);
            q' = (if (rbit \<or> sbit) \<and> round_inc md ng (odd q) rbit sbit then q + 1 else q)
        in if q' = 2 ^ p \<and> E \<ge> MaxExp then (Finf, 0, 0)
           else (case trim q' (E - int p) of (m', e') \<Rightarrow> (Ffinite, m', e')))"

definition rounded :: "Float \<Rightarrow> bool \<Rightarrow> int \<Rightarrow> int \<Rightarrow> bool \<Rightarrow> Float" where
  "rounded z ng m e sticky =
     (case fround (fprec z) (fmode z) ng m e sticky of
        (Ffinite, m', e') \<Rightarrow> setval z Ffinite ng m' e'
      | (fo, _, _) \<Rightarrow> setval z fo ng 0 0)"

definition round_self :: "Float \<Rightarrow> Float" where
  "round_self z = (if fform z = Ffinite then rounded z (fneg z) (fmant z) (fexp z) False else z)"

subsection \<open>Accessors and setters\<close>

definition Prec :: "Float \<Rightarrow> nat" where "Prec x = fprec x"
definition Signbit :: "Float \<Rightarrow> bool" where "Signbit x = fneg x"
definition IsInf :: "Float \<Rightarrow> bool" where "IsInf x = (fform x = Finf)"

definition Sign :: "Float \<Rightarrow> int" where
  "Sign x = (if fform x = Fzero then 0 else if fneg x then - 1 else 1)"


text \<open>The exponent as \<^verbatim>\<open>MantExp\<close> reports it; 0 for zero and infinity.\<close>

definition gexp :: "Float \<Rightarrow> int" where
  "gexp x = (if fform x = Ffinite then fexp x + int (blen (fmant x)) else 0)"



definition SetPrec :: "Float \<Rightarrow> nat \<Rightarrow> Float" where
  "SetPrec z p =
     (if p = 0 then
        (if fform z = Ffinite then setval (z\<lparr>fprec := 0\<rparr>) Fzero (fneg z) 0 0
         else z\<lparr>fprec := 0\<rparr>)
      else
        let p' = (if int p > 4294967295 then MaxPrec else p); old = fprec z; z' = z\<lparr>fprec := p'\<rparr>
        in if p' < old then round_self z' else z')"

definition Set :: "Float \<Rightarrow> Float \<Rightarrow> Float" where
  "Set z x =
     (let z1 = setval z (fform x) (fneg x) (fmant x) (fexp x) in
      if fprec z = 0 then z1\<lparr>fprec := fprec x\<rparr>
      else if fprec z < fprec x then round_self z1
      else z1)"

definition Copy :: "Float \<Rightarrow> Float \<Rightarrow> Float" where
  "Copy z x = x"

definition Neg :: "Float \<Rightarrow> Float \<Rightarrow> Float" where
  "Neg z x = (let z1 = Set z x in z1\<lparr>fneg := \<not> fneg z1\<rparr>)"

definition SetInf :: "Float \<Rightarrow> bool \<Rightarrow> Float" where
  "SetInf z signbit = setval z Finf signbit 0 0"

definition MantExp_mant :: "Float \<Rightarrow> Float" where
  "MantExp_mant x = (if fform x = Ffinite then x\<lparr>fexp := - int (blen (fmant x))\<rparr> else x)"

definition SetMantExp :: "Float \<Rightarrow> Float \<Rightarrow> int \<Rightarrow> Float" where
  "SetMantExp z mant ex =
     (let z1 = Set z mant in
      if fform z1 = Ffinite then rounded z1 (fneg z1) (fmant z1) (fexp z1 + ex) False else z1)"

subsection \<open>Comparison\<close>

definition ord :: "Float \<Rightarrow> int" where
  "ord x =
     (case fform x of
        Ffinite \<Rightarrow> (if fneg x then - 1 else 1)
      | Fzero \<Rightarrow> 0
      | Finf \<Rightarrow> (if fneg x then - 2 else 2))"

definition ucmp :: "Float \<Rightarrow> Float \<Rightarrow> int" where
  "ucmp x y =
     (let e0 = min (fexp x) (fexp y);
          X = fmant x * 2 ^ nat (fexp x - e0);
          Y = fmant y * 2 ^ nat (fexp y - e0)
      in if X < Y then - 1 else if X > Y then 1 else 0)"

definition Cmp :: "Float \<Rightarrow> Float \<Rightarrow> int" where
  "Cmp x y =
     (let mx = ord x; my = ord y in
      if mx < my then - 1
      else if mx > my then 1
      else if mx = - 1 then ucmp y x
      else if mx = 1 then ucmp x y
      else 0)"

subsection \<open>Arithmetic\<close>

definition umax32 :: "nat \<Rightarrow> nat \<Rightarrow> nat" where
  "umax32 a b = (if a > b then a else b)"

definition defprec :: "Float \<Rightarrow> nat \<Rightarrow> Float" where
  "defprec z p = (if fprec z = 0 then z\<lparr>fprec := p\<rparr> else z)"

text \<open>The signed exact sum of two finite operands, then rounded; an exact zero is +0,
  or -0 in mode ToNegativeInf.\<close>

definition addsub :: "Float \<Rightarrow> Float \<Rightarrow> bool \<Rightarrow> Float \<Rightarrow> Float" where
  "addsub z x yneg y =
     (let e0 = min (fexp x) (fexp y);
          X = fmant x * 2 ^ nat (fexp x - e0);
          Y = fmant y * 2 ^ nat (fexp y - e0);
          t = (if fneg x then - X else X) + (if yneg then - Y else Y)
      in if t = 0 then setval z Fzero (fmode z = ToNegativeInf) 0 0
         else rounded z (t < 0) \<bar>t\<bar> e0 False)"

definition Add :: "Float \<Rightarrow> Float \<Rightarrow> Float \<Rightarrow> error + Float" where
  "Add z0 x y =
     (let z = defprec z0 (umax32 (fprec x) (fprec y)) in
      if fform x = Ffinite \<and> fform y = Ffinite then Inr (addsub z x (fneg y) y)
      else if fform x = Finf \<and> fform y = Finf \<and> fneg x \<noteq> fneg y
        then Inl (BigErrNaN ''addition of infinities with opposite signs'')
      else if fform x = Fzero \<and> fform y = Fzero
        then Inr (setval z Fzero (fneg x \<and> fneg y) 0 0)
      else if fform x = Finf \<or> fform y = Fzero then Inr (Set z x)
      else Inr (Set z y))"

definition Sub :: "Float \<Rightarrow> Float \<Rightarrow> Float \<Rightarrow> error + Float" where
  "Sub z0 x y =
     (let z = defprec z0 (umax32 (fprec x) (fprec y)) in
      if fform x = Ffinite \<and> fform y = Ffinite then Inr (addsub z x (\<not> fneg y) y)
      else if fform x = Finf \<and> fform y = Finf \<and> fneg x = fneg y
        then Inl (BigErrNaN ''subtraction of infinities with equal signs'')
      else if fform x = Fzero \<and> fform y = Fzero
        then Inr (setval z Fzero (fneg x \<and> \<not> fneg y) 0 0)
      else if fform x = Finf \<or> fform y = Fzero then Inr (Set z x)
      else Inr (Neg z y))"

definition Mul :: "Float \<Rightarrow> Float \<Rightarrow> Float \<Rightarrow> error + Float" where
  "Mul z0 x y =
     (let z = defprec z0 (umax32 (fprec x) (fprec y)); ng = (fneg x \<noteq> fneg y) in
      if fform x = Ffinite \<and> fform y = Ffinite
        then Inr (rounded z ng (fmant x * fmant y) (fexp x + fexp y) False)
      else if fform x = Fzero \<and> fform y = Finf \<or> fform x = Finf \<and> fform y = Fzero
        then Inl (BigErrNaN ''multiplication of zero with infinity'')
      else if fform x = Finf \<or> fform y = Finf then Inr (setval z Finf ng 0 0)
      else Inr (setval z Fzero ng 0 0))"

definition Quo :: "Float \<Rightarrow> Float \<Rightarrow> Float \<Rightarrow> error + Float" where
  "Quo z0 x y =
     (let z = defprec z0 (umax32 (fprec x) (fprec y)); ng = (fneg x \<noteq> fneg y) in
      if fform x = Ffinite \<and> fform y = Ffinite then
        (let k = fprec z + 2 + blen (fmant y); num = fmant x * 2 ^ k
         in Inr (rounded z ng (num div fmant y) (fexp x - fexp y - int k) (num mod fmant y \<noteq> 0)))
      else if fform x = Fzero \<and> fform y = Fzero \<or> fform x = Finf \<and> fform y = Finf
        then Inl (BigErrNaN ''division of zero by zero or infinity by infinity'')
      else if fform x = Fzero \<or> fform y = Finf then Inr (setval z Fzero ng 0 0)
      else Inr (setval z Finf ng 0 0))"

text \<open>Sqrt is taken as correctly rounded: the integer root of the magnitude, scaled to
  at least \<open>p + 2\<close> result bits, with the sticky bit saying that the root is inexact.\<close>

definition Sqrt :: "Float \<Rightarrow> Float \<Rightarrow> error + Float" where
  "Sqrt z0 x =
     (let z = defprec z0 (fprec x) in
      if Sign x = - 1 then Inl (BigErrNaN ''square root of negative operand'')
      else if fform x \<noteq> Ffinite then Inr (setval z (fform x) (fneg x) 0 0)
      else
        let k0 = 2 * (fprec z + 2);
            k = (if even (fexp x - int k0) then k0 else k0 + 1);
            rm = sqrtrem (fmant x * 2 ^ k)
        in Inr (rounded z False (fst rm) ((fexp x - int k) div 2) (snd rm \<noteq> 0)))"

subsection \<open>Native doubles\<close>

text \<open>
  A \<^verbatim>\<open>float64\<close> that is not a NaN: a signed zero, a signed infinity, or a signed
  magnitude \<open>m * 2 ^ e\<close>. No NaN reaches the library: its \<^verbatim>\<open>NewFloat\<close> arguments are
  literals, and \<^verbatim>\<open>Float64\<close> never yields one.
\<close>

datatype float64 = F64 bool int int | F64zero bool | F64inf bool

definition SetFloat64 :: "Float \<Rightarrow> float64 \<Rightarrow> Float" where
  "SetFloat64 z0 x =
     (let z = defprec z0 53 in
      case x of
        F64zero s \<Rightarrow> setval z Fzero s 0 0
      | F64inf s \<Rightarrow> setval z Finf s 0 0
      | F64 s m e \<Rightarrow>
          (case trim m e of (m', e') \<Rightarrow>
             let z1 = setval z Ffinite s m' e' in
             if fprec z < 53 then round_self z1 else z1))"

definition NewFloat :: "float64 \<Rightarrow> Float" where
  "NewFloat x = SetFloat64 new_Float x"

section \<open>Globals that are never modified\<close>

definition gzero :: Float where "gzero = new_Float"
definition gonep :: Float where "gonep = NewFloat (F64 False 1 0)"
definition gtwop :: Float where "gtwop = NewFloat (F64 False 2 0)"

section \<open>quicksh\<close>

text \<open>
  \<^verbatim>\<open>exp := z.MantExp(o); return o.SetMantExp(o, exp+n)\<close>. MantExp copies \<open>z\<close> into \<open>o\<close>
  (precision and mode included) with the exponent reset, so the old \<open>o\<close> does not matter.
\<close>

definition quicksh :: "Float \<Rightarrow> Float \<Rightarrow> int \<Rightarrow> Float" where
  "quicksh o' z n =
     (let ex = gexp z; o1 = MantExp_mant (Copy o' z) in SetMantExp o1 o1 (ex + n))"

section \<open>AGM\<close>

text \<open>
  All functions of the library are modelled on the values of their arguments: the
  destination \<open>o\<close> comes in as its value before the call, and the result is its value
  after the call (the pointer the Go function returns is \<open>o\<close> itself, except in Pow and
  Exp, which are modelled on a store below). A panic is \<open>Inl\<close>; a loop that never exits is
  \<open>None\<close>.
\<close>

definition bindE :: "error + 'a \<Rightarrow> ('a \<Rightarrow> error + 'b) \<Rightarrow> error + 'b" where
  "bindE m f = (case m of Inl e \<Rightarrow> Inl e | Inr x \<Rightarrow> f x)"

text \<open>The statements of AGM before its loop: they yield \<open>prec\<close>, \<open>lim\<close>, and the values of
  \<open>o\<close>, \<open>a2\<close> and \<open>b2\<close> on entry to the loop.\<close>

definition AGM_start :: "Float \<Rightarrow> Float \<Rightarrow> Float \<Rightarrow> nat \<times> Float \<times> Float \<times> Float \<times> Float" where
  "AGM_start o0 a b =
     (let prec = (if Prec o0 = 0 then (if Prec a \<ge> Prec b then Prec a else Prec b) else Prec o0);
          o1 = SetPrec o0 (prec + 64);
          a2 = SetPrec (Copy new_Float a) (prec + 64);
          b2 = SetPrec (Copy new_Float b) (prec + 64);
          ab = (if Cmp a2 b2 = - 1 then (b2, a2) else (a2, b2));
          lim = SetMantExp new_Float (SetPrec (NewFloat (F64 False 1 0)) (prec + 64)) (- int (prec + 1))
      in (prec, lim, o1, fst ab, snd ab))"

text \<open>One pass through the body of the loop, up to \<^verbatim>\<open>o.Sub(a2, b2)\<close>.\<close>

definition AGM_body :: "Float \<Rightarrow> Float \<Rightarrow> Float \<Rightarrow> error + Float \<times> Float \<times> Float" where
  "AGM_body o0 a2 b2 =
     (let o1 = Copy o0 a2 in
      bindE (Add a2 a2 b2) (\<lambda>a2s.
      let a2' = quicksh a2s a2s (- 1) in
      bindE (Mul b2 b2 o1) (\<lambda>b2m.
      bindE (Sqrt b2m b2m) (\<lambda>b2'.
      bindE (Sub o1 a2' b2') (\<lambda>o2.
      Inr (o2, a2', b2'))))))"

partial_function (option) AGM_loop ::
  "Float \<Rightarrow> Float \<Rightarrow> Float \<Rightarrow> Float \<Rightarrow> (error + Float \<times> Float \<times> Float) option" where
  "AGM_loop lim o0 a2 b2 =
     (case AGM_body o0 a2 b2 of
        Inl e \<Rightarrow> Some (Inl e)
      | Inr (o2, a2', b2') \<Rightarrow>
          if Cmp o2 lim = - 1 then Some (Inr (o2, a2', b2'))
          else AGM_loop lim o2 a2' b2')"

declare AGM_loop.simps [code]

definition AGM :: "Float \<Rightarrow> Float \<Rightarrow> Float \<Rightarrow> (error + Float) option" where
  "AGM o0 a b =
     (case AGM_start o0 a b of (prec, lim, o1, a2, b2) \<Rightarrow>
        (case AGM_loop lim o1 a2 b2 of
           None \<Rightarrow> None
         | Some (Inl e) \<Rightarrow> Some (Inl e)
         | Some (Inr (o2, a2', b2')) \<Rightarrow> Some (Inr (SetPrec (Copy o2 a2') prec))))"

section \<open>Round\<close>




section \<open>The pi cache\<close>

text \<open>
  The process-wide state: the cached value of pi (an \<^verbatim>\<open>atomic.Value\<close> holding a Float
  that is never written after it is stored) and the switch \<^verbatim>\<open>enablePiCache\<close>, together
  with the store of the Floats that Pow and Exp work on. The mutex \<^verbatim>\<open>piMu\<close> has no
  effect on a single thread and is left out.
\<close>

record state =
  heap :: "nat \<Rightarrow> Float"
  nxt :: nat
  piCache :: Float
  enablePiCache :: bool

definition pi_digits :: int where
  "pi_digits = 314159265358979323846264338327950288419716939937510582097494459230781640628620899862803482534211706798214808651328230664709384460955058223172535940812848111745028410270193852110555964462294895493038196442881097566593344612847564823378678316527120190914564856692346034861045432664821339360726024914127372458700660631558817488152092096282925409171536444"

text \<open>\<^verbatim>\<open>init\<close>: the decimal literal (350 digits after the point) parsed to 1024 bits.\<close>

definition init_piCache :: Float where
  "init_piCache =
     (let den = 10 ^ 350; k = 1026 + blen den; num = pi_digits * 2 ^ k
      in rounded (SetPrec new_Float 1024) False (num div den) (- int k) (num mod den \<noteq> 0))"

text \<open>The cached value is not needed bit by bit below, only its precision, so it is kept
  out of evaluation.\<close>

declare init_piCache_def [code del]

definition init_state :: state where
  "init_state = \<lparr>heap = (\<lambda>_. new_Float), nxt = 0, piCache = init_piCache, enablePiCache = True\<rparr>"

definition bnd :: "(error + 'a) option \<Rightarrow> ('a \<Rightarrow> (error + 'b) option) \<Rightarrow> (error + 'b) option" where
  "bnd m f = (case m of None \<Rightarrow> None | Some (Inl e) \<Rightarrow> Some (Inl e) | Some (Inr x) \<Rightarrow> f x)"

partial_function (option) piCalc_loop ::
  "Float \<Rightarrow> Float \<Rightarrow> Float \<Rightarrow> Float \<Rightarrow> Float \<Rightarrow> Float \<Rightarrow> (error + Float \<times> Float) option" where
  "piCalc_loop lim a b t x y =
     (case Sub y a b of Inl e \<Rightarrow> Some (Inl e) | Inr y1 \<Rightarrow>
      if Cmp y1 lim \<noteq> - 1 then
        let y2 = Copy y1 a in
        case Add a a b of Inl e \<Rightarrow> Some (Inl e) | Inr a1 \<Rightarrow>
        let a2 = quicksh a1 a1 (- 1) in
        case Mul b b y2 of Inl e \<Rightarrow> Some (Inl e) | Inr b1 \<Rightarrow>
        case Sqrt b1 b1 of Inl e \<Rightarrow> Some (Inl e) | Inr b2 \<Rightarrow>
        case Sub y2 a2 y2 of Inl e \<Rightarrow> Some (Inl e) | Inr y3 \<Rightarrow>
        case Mul y3 y3 y3 of Inl e \<Rightarrow> Some (Inl e) | Inr y4 \<Rightarrow>
        case Mul y4 y4 x of Inl e \<Rightarrow> Some (Inl e) | Inr y5 \<Rightarrow>
        case Sub t t y5 of Inl e \<Rightarrow> Some (Inl e) | Inr t1 \<Rightarrow>
        let x1 = quicksh x x 1 in
        piCalc_loop lim a2 b2 t1 x1 y5
      else Some (Inr (a, t)))"

declare piCalc_loop.simps [code]

definition piCalc :: "Float \<Rightarrow> (error + Float) option" where
  "piCalc a0 =
     (let prec = Prec a0;
          sqrt2 = Set (SetPrec new_Float (prec + 64)) gtwop
      in bnd (Some (Sqrt sqrt2 sqrt2)) (\<lambda>sqrt2.
         let a = SetPrec (SetFloat64 a0 (F64 False 1 0)) (prec + 64);
             b = quicksh new_Float sqrt2 (- 1);
             t = SetPrec (NewFloat (F64 False 1 (- 2))) (prec + 64);
             x = SetPrec (NewFloat (F64 False 1 0)) (prec + 64);
             lim = SetMantExp new_Float (SetPrec (NewFloat (F64 False 1 0)) (prec + 64))
                     (- int (prec + 1));
             y = new_Float
         in bnd (piCalc_loop lim a b t x y) (\<lambda>(a, t).
            bnd (Some (Mul a a a)) (\<lambda>a.
            bnd (Some (Quo a a t)) (\<lambda>a.
            Some (Inr (SetPrec a prec)))))))"

definition loadPi :: "state \<Rightarrow> Float" where
  "loadPi s = piCache s"

definition Pi :: "Float \<Rightarrow> state \<Rightarrow> (error + Float \<times> state) option" where
  "Pi a s =
     (let prec = Prec a in
      if prec = 0 then Some (Inr (Set a gzero, s))
      else if enablePiCache s \<and> prec \<le> Prec (loadPi s) then Some (Inr (Set a (loadPi s), s))
      else
        bnd (piCalc a) (\<lambda>a.
          if enablePiCache s then
            (if Prec (loadPi s) < prec
             then Some (Inr (a, s\<lparr>piCache := Copy new_Float a\<rparr>))
             else Some (Inr (a, s)))
          else Some (Inr (a, s))))"

definition cachedPi :: "nat \<Rightarrow> state \<Rightarrow> (error + Float \<times> state) option" where
  "cachedPi prec s =
     (if \<not> enablePiCache s then Pi (SetPrec new_Float prec) s
      else
        let pi = piCache s in
        if Prec pi \<ge> prec then Some (Inr (pi, s))
        else
          let pi = piCache s in
          if Prec pi \<ge> prec then Some (Inr (pi, s))
          else bnd (piCalc (SetPrec new_Float prec)) (\<lambda>pi. Some (Inr (pi, s\<lparr>piCache := pi\<rparr>))))"

section \<open>Log\<close>

text \<open>
  Modelled from the spec: \<^verbatim>\<open>pi(prec)\<close>, which both versions of Log call and no source file
  defines. The spec has the Log Engine obtain pi from the Pi Engine's \<^verbatim>\<open>cachedPi\<close>
  accessor, so \<open>pi0\<close> is \<open>cachedPi\<close>.
\<close>

definition pi0 :: "nat \<Rightarrow> state \<Rightarrow> (error + Float \<times> state) option" where
  "pi0 prec s = cachedPi prec s"

text \<open>
  Modelled from the spec: \<^verbatim>\<open>agm(a, b)\<close>, which the one-argument Log calls and no source
  file defines: the AGM Engine applied to a fresh destination.
\<close>

definition agm :: "Float \<Rightarrow> Float \<Rightarrow> (error + Float) option" where
  "agm a b = AGM new_Float a b"

text \<open>\<^verbatim>\<open>for o.Cmp(lim) < 0 { o.Mul(o, o); k++ }\<close>\<close>

partial_function (option) Log_square :: "Float \<Rightarrow> Float \<Rightarrow> int \<Rightarrow> (error + Float \<times> int) option" where
  "Log_square lim o0 k =
     (if Cmp o0 lim < 0 then
        (case Mul o0 o0 o0 of Inl e \<Rightarrow> Some (Inl e) | Inr o1 \<Rightarrow> Log_square lim o1 (k + 1))
      else Some (Inr (o0, k)))"

text \<open>
  The part that the two versions of Log share, from the computation of \<open>lim\<close> to the end:
  \<open>o0\<close> holds the argument or its reciprocal at the working precision \<open>prec\<close>, and
  \<open>mean\<close> is the AGM that the version calls.
\<close>

definition Log_agm ::
  "(Float \<Rightarrow> Float \<Rightarrow> (error + Float) option) \<Rightarrow> Float \<Rightarrow> bool \<Rightarrow> nat \<Rightarrow> Float \<Rightarrow> Float \<Rightarrow> Float \<Rightarrow>
     state \<Rightarrow> (error + Float \<times> state) option" where
  "Log_agm mean o0 neg prec one two four s =
     (let lim = SetMantExp new_Float two (int (prec div 2)) in
      bnd (Log_square lim o0 0) (\<lambda>(o1, k).
      bnd (pi0 prec s) (\<lambda>(pi, s1).
      bnd (Some (Quo o1 four o1)) (\<lambda>o2.
      bnd (mean one o2) (\<lambda>agm.
      bnd (Some (Mul o2 two agm)) (\<lambda>o3.
      bnd (Some (Quo o3 pi o3)) (\<lambda>o4.
      let o5 = (if neg then Neg o4 o4 else o4);
          lim1 = SetMantExp lim one (- k)
      in bnd (Some (Mul o5 o5 lim1)) (\<lambda>o6.
         Some (Inr (SetPrec o6 (prec - 64), s1))))))))))"

text \<open>Log with a destination (the later version).\<close>

definition Log :: "Float \<Rightarrow> Float \<Rightarrow> state \<Rightarrow> (error + Float \<times> state) option" where
  "Log o0 z s =
     (let o1 = (if Prec o0 = 0 then SetPrec o0 (Prec z) else o0) in
      if Signbit z then Some (Inl (ErrNaN ''Log: argument is negative''))
      else if Sign z = 0 then Some (Inr (SetInf o1 True, s))
      else if IsInf z then Some (Inr (Set o1 z, s))
      else
        let prec = Prec o1 + 64;
            one = SetPrec (NewFloat (F64 False 1 0)) prec;
            two = SetPrec (NewFloat (F64 False 2 0)) prec;
            four = SetPrec (NewFloat (F64 False 4 0)) prec;
            c = Cmp z one
        in if c = 1 then
             Log_agm (AGM new_Float) (Set (SetPrec o1 prec) z) False prec one two four s
           else if c = - 1 then
             bnd (Some (Quo (SetPrec o1 prec) one z)) (\<lambda>o2.
               Log_agm (AGM new_Float) o2 True prec one two four s)
           else if c = 0 then Some (Inr (Set o1 gzero, s))
           else Some (Inl (Panic ''bigfloat: unexpected comparison result, not 0, 1, or -1'')))"

text \<open>Log in place (the earlier version, which Exp calls): the result is the new value of
  \<open>z\<close>.\<close>

definition Log1 :: "Float \<Rightarrow> state \<Rightarrow> (error + Float \<times> state) option" where
  "Log1 z s =
     (if Signbit z then Some (Inl (ErrNaN ''Log: argument is negative''))
      else if Sign z = 0 then Some (Inr (SetInf z True, s))
      else if IsInf z then Some (Inr (z, s))
      else
        let prec = Prec z + 64;
            one = SetPrec (NewFloat (F64 False 1 0)) prec;
            two = SetPrec (NewFloat (F64 False 2 0)) prec;
            four = SetPrec (NewFloat (F64 False 4 0)) prec
        in if Cmp z one = 0 then Some (Inr (Set z gzero, s))
           else
             let z1 = SetPrec z prec in
             if Cmp z1 one < 0 then
               bnd (Some (Quo z1 one z1)) (\<lambda>z2. Log_agm agm z2 True prec one two four s)
             else Log_agm agm z1 False prec one two four s)"

section \<open>newton\<close>

text \<open>
  \<open>fOverDf\<close> is a closure: it gets the guess and the state that it captured (for Exp, the
  store and the pi cache) and yields the quotient and the new state. \<open>uint\<close> arithmetic
  on the precisions cannot wrap: they stay below \<open>2 ^ 34\<close>.
\<close>

partial_function (option) newton_loop ::
  "(Float \<Rightarrow> 's \<Rightarrow> (error + Float \<times> 's) option) \<Rightarrow> Float \<Rightarrow> nat \<Rightarrow> nat \<Rightarrow> 's \<Rightarrow>
     (error + Float \<times> 's) option" where
  "newton_loop fOverDf guess prec dPrec s =
     (if prec < 2 * dPrec then
        (case fOverDf guess s of
           None \<Rightarrow> None
         | Some (Inl e) \<Rightarrow> Some (Inl e)
         | Some (Inr (d, s1)) \<Rightarrow>
             (case Sub guess guess d of
                Inl e \<Rightarrow> Some (Inl e)
              | Inr g \<Rightarrow> newton_loop fOverDf (SetPrec g (prec * 2 + 64)) (prec * 2) dPrec s1))
      else Some (Inr (guess, s)))"

definition newton ::
  "(Float \<Rightarrow> 's \<Rightarrow> (error + Float \<times> 's) option) \<Rightarrow> Float \<Rightarrow> nat \<Rightarrow> 's \<Rightarrow> (error + Float \<times> 's) option" where
  "newton fOverDf guess dPrec s =
     (let prec = Prec guess; guard = 64; guess1 = SetPrec guess (prec + guard)
      in bnd (newton_loop fOverDf guess1 prec dPrec s) (\<lambda>(g, s1). Some (Inr (SetPrec g dPrec, s1))))"

section \<open>Exp\<close>

text \<open>\<^verbatim>\<open>Float.Float64\<close>: the nearest double (ties to even), with gradual underflow.\<close>

definition Float64 :: "Float \<Rightarrow> float64" where
  "Float64 x =
     (case fform x of
        Fzero \<Rightarrow> F64zero (fneg x)
      | Finf \<Rightarrow> F64inf (fneg x)
      | Ffinite \<Rightarrow>
          let e = gexp x - 1;
              p = (if e < - 1022 then 53 + 1022 + e else 53)
          in if e < - 1022 \<and> (p < 0 \<or> p = 0 \<and> fmant x = 1) then F64zero (fneg x)
             else if e < - 1022 \<and> p = 0 then F64 (fneg x) 1 (- 1074)
             else
               let r = Set (new_Float\<lparr>fprec := nat p\<rparr>) x in
               if fform r = Finf \<or> gexp r - 1 > 1023 then F64inf (fneg x)
               else F64 (fneg x) (fmant r) (fexp r))"

text \<open>
  \<^verbatim>\<open>math.Exp\<close> runs on the machine's doubles. Its documented special cases are fixed here:
  infinities, zero, and the arguments above \<open>Overflow\<close> (709.78...) and below
  \<open>Underflow\<close> (-745.13...), which give +Inf and 0. What it returns in between is the
  parameter \<open>kern\<close>.
\<close>

definition mathExp :: "(float64 \<Rightarrow> float64) \<Rightarrow> float64 \<Rightarrow> float64" where
  "mathExp kern x =
     (case x of
        F64inf sg \<Rightarrow> (if sg then F64zero False else F64inf False)
      | F64zero sg \<Rightarrow> F64 False 1 0
      | F64 sg m e \<Rightarrow>
          if \<not> sg \<and> (if e \<ge> - 43 then m * 2 ^ nat (e + 43) > 6243314768165359
                      else m > 6243314768165359 * 2 ^ nat (- 43 - e)) then F64inf False
          else if sg \<and> (if e \<ge> - 43 then m * 2 ^ nat (e + 43) > 6554261109157969
                          else m > 6554261109157969 * 2 ^ nat (- 43 - e)) then F64zero False
          else kern x)"

definition IsInf64 :: "float64 \<Rightarrow> bool" where
  "IsInf64 x = (x = F64inf False)"

definition IsZero64 :: "float64 \<Rightarrow> bool" where
  "IsZero64 x = (case x of F64zero _ \<Rightarrow> True | _ \<Rightarrow> False)"

text \<open>
  Exp and Pow work on a store: \<open>heap s\<close> maps the address of a Float to its value, and
  \<open>nxt s\<close> is the next free address. Their arguments and results are addresses, so that
  \<^verbatim>\<open>p == z\<close> is a comparison of addresses and the result says which Float is returned.
\<close>

definition alloc :: "Float \<Rightarrow> state \<Rightarrow> nat \<times> state" where
  "alloc v s = (nxt s, s\<lparr>heap := (heap s)(nxt s := v), nxt := nxt s + 1\<rparr>)"

definition put :: "nat \<Rightarrow> Float \<Rightarrow> state \<Rightarrow> state" where
  "put a v s = s\<lparr>heap := (heap s)(a := v)\<rparr>"

text \<open>The closure \<^verbatim>\<open>f\<close> of Exp: \<^verbatim>\<open>p.Sub(Log(new(big.Float).Copy(t)), z); return p.Mul(p, t)\<close>.\<close>

definition Exp_f :: "nat \<Rightarrow> nat \<Rightarrow> Float \<Rightarrow> state \<Rightarrow> (error + Float \<times> state) option" where
  "Exp_f p z t s =
     bnd (Log1 (Copy new_Float t) s) (\<lambda>(l, s1).
     bnd (Some (Sub (heap s1 p) l (heap s1 z))) (\<lambda>p1.
     bnd (Some (Mul p1 p1 t)) (\<lambda>p2.
     Some (Inr (p2, put p p2 s1)))))"

partial_function (option) Exp ::
  "(float64 \<Rightarrow> float64) \<Rightarrow> nat \<Rightarrow> nat \<Rightarrow> state \<Rightarrow> (error + nat \<times> state) option" where
  "Exp kern o' z s0 =
     (let s = (if Prec (heap s0 o') = 0 then put o' (SetPrec (heap s0 o') (Prec (heap s0 z))) s0 else s0) in
      if Sign (heap s z) = 0 then Some (Inr (o', put o' (SetFloat64 (heap s o') (F64 False 1 0)) s))
      else if IsInf (heap s z) then
        (if Sign (heap s z) < 0 then Some (Inr (o', put o' (Set (heap s o') gzero) s))
         else Some (Inr (o', put o' (Set (heap s o') (heap s z)) s)))
      else
        let ps = (if o' = z then alloc (SetPrec new_Float (Prec (heap s z))) s else (o', s));
            p = fst ps;
            s1 = snd ps;
            zf = mathExp kern (Float64 (heap s1 z))
        in if IsInf64 zf \<or> IsZero64 zf then
             (case Mul (SetPrec new_Float (Prec (heap s1 p) + 64)) (heap s1 z) (NewFloat (F64 False 1 (- 1))) of
                Inl e \<Rightarrow> Some (Inl e)
              | Inr hz \<Rightarrow>
                  (let hs = alloc hz s1; halfZ = fst hs; s2 = snd hs in
                   Option.bind (Exp kern halfZ halfZ s2) (\<lambda>r.
                     case r of
                       Inl e \<Rightarrow> Some (Inl e)
                     | Inr (halfExp, s3) \<Rightarrow>
                         (case Mul (heap s3 p) (heap s3 halfExp) (heap s3 halfExp) of
                            Inl e \<Rightarrow> Some (Inl e)
                          | Inr v \<Rightarrow> Some (Inr (p, put p v s3))))))
           else
             (let guess = NewFloat zf in
              case newton (Exp_f p z) guess (Prec (heap s1 z)) s1 of
                None \<Rightarrow> None
              | Some (Inl e) \<Rightarrow> Some (Inl e)
              | Some (Inr (x, s2)) \<Rightarrow> Some (Inr (o', put o' (Set (heap s2 o') x) s2))))"

section \<open>Pow\<close>

text \<open>\<^verbatim>\<open>o.Prec() - 64\<close> on \<^verbatim>\<open>uint\<close> (64 bits) wraps below zero.\<close>

definition usub64 :: "nat \<Rightarrow> nat \<Rightarrow> nat" where
  "usub64 a b = (if b \<le> a then a - b else a + 2 ^ 64 - b)"

text \<open>The integer fast path is switched off in the source (\<^verbatim>\<open>if false && w.IsInt()\<close>) and
  has no counterpart here.\<close>

definition Pow_float :: "(float64 \<Rightarrow> float64) \<Rightarrow> nat \<Rightarrow> nat \<Rightarrow> nat \<Rightarrow> state \<Rightarrow> (error + nat \<times> state) option" where
  "Pow_float kern o' z w s0 =
     (let s = (if Prec (heap s0 o') = 0 then
                 (if Prec (heap s0 z) \<ge> Prec (heap s0 w)
                  then put o' (SetPrec (heap s0 o') (Prec (heap s0 z))) s0
                  else put o' (SetPrec (heap s0 o') (Prec (heap s0 w))) s0)
               else s0) in
      if Signbit (heap s z) then Some (Inl (ErrNaN ''Pow: negative base''))
      else if Sign (heap s w) = 0 then
        Some (Inr (alloc (SetPrec (NewFloat (F64 False 1 0)) (Prec (heap s z))) s))
      else if Cmp (heap s w) (NewFloat (F64 False 1 0)) = 0 \<or> IsInf (heap s z) then
        Some (Inr (alloc (Copy new_Float (heap s z)) s))
      else
        let s1 = put o' (SetPrec (heap s o') (Prec (heap s o') + 64)) s in
        bnd (Log (SetPrec new_Float (Prec (heap s1 z) + 64)) (heap s1 z) s1) (\<lambda>(logZ, s2).
        bnd (Some (Mul (heap s2 o') (SetPrec (Set new_Float (heap s2 w)) (Prec (heap s2 z) + 64)) logZ)) (\<lambda>v.
        bnd (Exp kern o' o' (put o' v s2)) (\<lambda>(r, s3).
        Some (Inr (r, put r (SetPrec (heap s3 r) (usub64 (Prec (heap s3 r)) 64)) s3))))))"

section \<open>Well-formed Floats, results and example stores\<close>

text \<open>
  What \<^verbatim>\<open>Float.validate\<close> checks: a finite Float has a positive precision that its
  mantissa fits and an exponent in range; the precision is a \<^verbatim>\<open>uint32\<close>.
\<close>

definition valid :: "Float \<Rightarrow> bool" where
  "valid x =
     (int (fprec x) \<le> 4294967295 \<and>
      (if fform x = Ffinite
       then 0 < fprec x \<and> 0 < fmant x \<and> odd (fmant x) \<and> blen (fmant x) \<le> fprec x \<and>
            MinExp \<le> gexp x \<and> gexp x \<le> MaxExp
       else fmant x = 0 \<and> fexp x = 0))"

text \<open>Of a call on the store: the address returned, the Float there, and the Float at
  a given address afterwards. A panic or a call that does not return has none.\<close>

definition ret_addr :: "(error + nat \<times> state) option \<Rightarrow> nat option" where
  "ret_addr r = (case r of Some (Inr (a, s)) \<Rightarrow> Some a | _ \<Rightarrow> None)"

definition ret_val :: "(error + nat \<times> state) option \<Rightarrow> Float option" where
  "ret_val r = (case r of Some (Inr (a, s)) \<Rightarrow> Some (heap s a) | _ \<Rightarrow> None)"

definition val_at :: "nat \<Rightarrow> (error + nat \<times> state) option \<Rightarrow> Float option" where
  "val_at a r = (case r of Some (Inr (b, s)) \<Rightarrow> Some (heap s a) | _ \<Rightarrow> None)"

text \<open>A store of three Floats at the addresses 0, 1 and 2, with the pi cache as
  \<^verbatim>\<open>init\<close> leaves it.\<close>

definition store3 :: "Float \<Rightarrow> Float \<Rightarrow> Float \<Rightarrow> state" where
  "store3 a b c =
     \<lparr>heap = (\<lambda>i. if i = 0 then a else if i = 1 then b else if i = 2 then c else new_Float),
      nxt = 3, piCache = init_piCache, enablePiCache = True\<rparr>"

text \<open>A stand-in for the part of \<^verbatim>\<open>math.Exp\<close> that is a parameter, for closed examples
  that never reach it.\<close>

definition kernel1 :: "float64 \<Rightarrow> float64" where
  "kernel1 x = F64 False 1 0"

definition pinf :: Float where
  "pinf = SetInf (SetPrec new_Float 53) False"

text \<open>Whether a call ended in the library's own panic, \<^verbatim>\<open>ErrNaN\<close>.\<close>

definition is_ErrNaN :: "(error + 'a) option \<Rightarrow> bool" where
  "is_ErrNaN r = (case r of Some (Inl (ErrNaN m)) \<Rightarrow> True | _ \<Rightarrow> False)"

text \<open>\<open>n\<close> passes through the loop of AGM, none of which panics or meets the exit
  condition: the values of \<open>o\<close>, \<open>a2\<close> and \<open>b2\<close> after them.\<close>

fun AGM_iter :: "nat \<Rightarrow> Float \<Rightarrow> Float \<times> Float \<times> Float \<Rightarrow> (Float \<times> Float \<times> Float) option" where
  "AGM_iter 0 lim s = Some s"
| "AGM_iter (Suc n) lim s =
     (case s of (o0, a2, b2) \<Rightarrow>
        (case AGM_body o0 a2 b2 of
           Inl e \<Rightarrow> None
         | Inr s' \<Rightarrow> if Cmp (fst s') lim = - 1 then None else AGM_iter n lim s'))"

text \<open>
  For \<open>AGM(new(big.Float), big.NewFloat(2^70), big.NewFloat(1))\<close>: the threshold \<open>lim\<close> and
  the values of \<open>o\<close>, \<open>a2\<close> and \<open>b2\<close> on entry to the loop, and those after ten passes.
\<close>

definition agm70_lim :: Float where
  "agm70_lim = \<lparr>fprec = 117, fmode = ToNearestEven, fform = Ffinite, fneg = False, fmant = 1, fexp = - 54\<rparr>"

definition agm70_o :: Float where
  "agm70_o = \<lparr>fprec = 117, fmode = ToNearestEven, fform = Fzero, fneg = False, fmant = 0, fexp = 0\<rparr>"

definition agm70_a :: Float where
  "agm70_a = \<lparr>fprec = 117, fmode = ToNearestEven, fform = Ffinite, fneg = False, fmant = 1, fexp = 70\<rparr>"

definition agm70_b :: Float where
  "agm70_b = \<lparr>fprec = 117, fmode = ToNearestEven, fform = Ffinite, fneg = False, fmant = 1, fexp = 0\<rparr>"

definition agm70_o10 :: Float where
  "agm70_o10 = \<lparr>fprec = 117, fmode = ToNearestEven, fform = Ffinite, fneg = False, fmant = 1, fexp = - 51\<rparr>"

definition agm70_a10 :: Float where
  "agm70_a10 = \<lparr>fprec = 117, fmode = ToNearestEven, fform = Ffinite, fneg = False,
     fmant = 20918541623251381531543511447028525, fexp = - 49\<rparr>"

definition agm70_b10 :: Float where
  "agm70_b10 = \<lparr>fprec = 117, fmode = ToNearestEven, fform = Ffinite, fneg = False,
     fmant = 83674166493005526126174045788114099, fexp = - 51\<rparr>"

text \<open>The number \<open>1 + 2^-120\<close>, at the precision 121 that it needs.\<close>

definition x_near_one :: Float where
  "x_near_one = \<lparr>fprec = 121, fmode = ToNearestEven, fform = Ffinite, fneg = False,
     fmant = 2 ^ 120 + 1, fexp = - 120\<rparr>"

text \<open>A state whose cache holds pi at two bits (the number 3), to watch the cache grow.\<close>

definition pi_small_state :: state where
  "pi_small_state =
     \<lparr>heap = (\<lambda>_. new_Float), nxt = 0, piCache = SetPrec (NewFloat (F64 False 3 0)) 2,
      enablePiCache = True\<rparr>"

text \<open>The cached value after a call that returned.\<close>

definition cache_after :: "(error + 'a \<times> state) option \<Rightarrow> Float option" where
  "cache_after r = (case r of Some (Inr (x, t)) \<Rightarrow> Some (piCache t) | _ \<Rightarrow> None)"

section \<open>Properties\<close>

subsection \<open>Pow\<close>

lemma SetPrec_nonfinite:
  "fform z \<noteq> Ffinite \<Longrightarrow> fform (SetPrec z p) = fform z \<and> fneg (SetPrec z p) = fneg z"
  by (simp add: SetPrec_def round_self_def Let_def)

text \<open>
  C4, as amended. For a base \<open>z\<close> that is +Inf and every well-formed exponent \<open>w\<close> other
  than zero (negative and infinite ones included), \<open>Pow(o, z, w)\<close> produces +Inf: the call
  returns normally and the Float it yields is +Inf, whatever \<open>o\<close>, \<open>z\<close> and \<open>w\<close> alias.
  The statement is about the value produced only; it says nothing for \<open>w = 0\<close> and nothing
  about which Float holds the value.
\<close>

theorem Pow_inf:
  assumes z: "IsInf (heap s z)" "\<not> Signbit (heap s z)"
    and w: "Sign (heap s w) \<noteq> 0" "valid (heap s w)"
  shows "\<exists>v. ret_val (Pow_float kern o' z w s) = Some v \<and> IsInf v \<and> \<not> Signbit v"
proof -
  define s1 where "s1 =
     (if Prec (heap s o') = 0 then
        (if Prec (heap s z) \<ge> Prec (heap s w)
         then put o' (SetPrec (heap s o') (Prec (heap s z))) s
         else put o' (SetPrec (heap s o') (Prec (heap s w))) s)
      else s)"
  have zi: "fform (heap s z) = Finf" "\<not> fneg (heap s z)"
    using z by (simp_all add: IsInf_def Signbit_def)
  have z1: "fform (heap s1 z) = Finf \<and> \<not> fneg (heap s1 z)"
    using zi by (auto simp: s1_def put_def SetPrec_nonfinite)
  have wnf: "Prec (heap s w) = 0 \<Longrightarrow> fform (heap s w) \<noteq> Ffinite"
    using w(2) by (auto simp: valid_def Prec_def split: if_splits)
  have w1: "Sign (heap s1 w) \<noteq> 0"
  proof (cases "w = o' \<and> Prec (heap s o') = 0")
    case True
    then have nf: "fform (heap s w) \<noteq> Ffinite" using wnf by simp
    have "fform (heap s w) \<noteq> Fzero" using w(1) by (simp add: Sign_def split: if_splits)
    with nf True show ?thesis
      by (simp add: s1_def put_def Sign_def SetPrec_nonfinite)
  next
    case False
    then show ?thesis using w(1) by (auto simp: s1_def put_def)
  qed
  have "Pow_float kern o' z w s = Some (Inr (alloc (Copy new_Float (heap s1 z)) s1))"
    using z1 w1 by (simp add: Pow_float_def Let_def s1_def [symmetric] Signbit_def IsInf_def)
  then show ?thesis
    using z1 by (simp add: ret_val_def alloc_def Copy_def IsInf_def Signbit_def)
qed

text \<open>The witness: +Inf to the power -1, in a store where the three Floats are distinct.\<close>

theorem Pow_inf_witness:
  "IsInf (heap (store3 new_Float pinf (NewFloat (F64 True 1 0))) 1) \<and>
   \<not> Signbit (heap (store3 new_Float pinf (NewFloat (F64 True 1 0))) 1) \<and>
   Sign (heap (store3 new_Float pinf (NewFloat (F64 True 1 0))) 2) \<noteq> 0 \<and>
   valid (heap (store3 new_Float pinf (NewFloat (F64 True 1 0))) 2) \<and>
   (\<exists>v. ret_val (Pow_float kernel1 0 1 2 (store3 new_Float pinf (NewFloat (F64 True 1 0)))) = Some v
        \<and> IsInf v \<and> \<not> Signbit v)"
proof -
  have a: "IsInf (heap (store3 new_Float pinf (NewFloat (F64 True 1 0))) 1)" by code_simp
  have b: "\<not> Signbit (heap (store3 new_Float pinf (NewFloat (F64 True 1 0))) 1)" by code_simp
  have c: "Sign (heap (store3 new_Float pinf (NewFloat (F64 True 1 0))) 2) \<noteq> 0" by code_simp
  have d: "valid (heap (store3 new_Float pinf (NewFloat (F64 True 1 0))) 2)" by code_simp
  show ?thesis using a b c d Pow_inf [OF a b c d, of kernel1 0] by simp
qed

text \<open>C4 as stated fails at \<open>w = 0\<close>: with \<open>z\<close> the +Inf of precision 53 and \<open>w\<close> the +0
  of precision 53, the Float that the call yields is the finite number 1, not +Inf.\<close>

theorem Pow_inf_zero_counterexample:
  "ret_val (Pow_float kernel1 0 1 2 (store3 new_Float pinf (NewFloat (F64zero False))))
     = Some (SetPrec (NewFloat (F64 False 1 0)) 53)"
  by code_simp

text \<open>
  C5. For a positive \<open>z\<close> and \<open>w = 0\<close>, Pow is to set the destination to 1 at the
  destination's precision and return the destination. The code evaluated at a destination
  of precision 100 (at address 0), \<open>z = 2\<close> and \<open>w = 0\<close> of precision 53: it returns a new
  Float (address 3) that holds 1 at the precision of \<open>z\<close>, and the destination still holds
  the +0 it held before.
\<close>

theorem Pow_zero_exponent:
  "ret_addr (Pow_float kernel1 0 1 2
      (store3 (SetPrec new_Float 100) (NewFloat (F64 False 2 0)) (NewFloat (F64zero False)))) = Some 3 \<and>
   ret_val (Pow_float kernel1 0 1 2
      (store3 (SetPrec new_Float 100) (NewFloat (F64 False 2 0)) (NewFloat (F64zero False))))
     = Some (SetPrec (NewFloat (F64 False 1 0)) 53) \<and>
   val_at 0 (Pow_float kernel1 0 1 2
      (store3 (SetPrec new_Float 100) (NewFloat (F64 False 2 0)) (NewFloat (F64zero False))))
     = Some (SetPrec new_Float 100)"
  by code_simp

subsection \<open>AGM\<close>

lemma AGM_loop_iter:
  "AGM_iter n lim (o0, a2, b2) = Some (o1, a3, b3) \<Longrightarrow> AGM_loop lim o0 a2 b2 = AGM_loop lim o1 a3 b3"
proof (induction n arbitrary: o0 a2 b2)
  case 0
  then show ?case by simp
next
  case (Suc n)
  from Suc.prems obtain o2 a4 b4 where
    body: "AGM_body o0 a2 b2 = Inr (o2, a4, b4)" and c: "Cmp o2 lim \<noteq> - 1"
    and rest: "AGM_iter n lim (o2, a4, b4) = Some (o1, a3, b3)"
    by (auto split: sum.splits if_splits)
  have "AGM_loop lim o0 a2 b2 = AGM_loop lim o2 a4 b4"
    using body c by (subst AGM_loop.simps) simp
  with Suc.IH [OF rest] show ?case by simp
qed

text \<open>A pass that leaves \<open>o\<close>, \<open>a2\<close> and \<open>b2\<close> as they were, without meeting the exit
  condition, is repeated for ever.\<close>

lemma AGM_loop_fix:
  assumes body: "AGM_body o0 a2 b2 = Inr (o0, a2, b2)" and c: "Cmp o0 lim \<noteq> - 1"
  shows "AGM_loop lim o0 a2 b2 = None"
proof -
  have ne: "(lim', o', a', b') \<noteq> (lim, o0, a2, b2)" if "AGM_loop lim' o' a' b' = Some y" for lim' o' a' b' y
    by (rule AGM_loop.raw_induct [where P = "\<lambda>l o1 a b y. (l, o1, a, b) \<noteq> (lim, o0, a2, b2)", OF _ that])
      (auto simp: body c, blast)
  show ?thesis
  proof (cases "AGM_loop lim o0 a2 b2")
    case None
    then show ?thesis .
  next
    case (Some y)
    from ne [OF this] show ?thesis by simp
  qed
qed

lemma agm70_start:
  "AGM_start new_Float (NewFloat (F64 False 1 70)) (NewFloat (F64 False 1 0))
     = (53, agm70_lim, agm70_o, agm70_a, agm70_b)"
  by code_simp

lemma agm70_run: "AGM_iter 10 agm70_lim (agm70_o, agm70_a, agm70_b) = Some (agm70_o10, agm70_a10, agm70_b10)"
  by code_simp

lemma agm70_fixed: "AGM_body agm70_o10 agm70_a10 agm70_b10 = Inr (agm70_o10, agm70_a10, agm70_b10)"
  by code_simp

lemma agm70_continue: "Cmp agm70_o10 agm70_lim \<noteq> - 1"
  by code_simp

text \<open>
  C7. The AGM iteration is to terminate for every pair of positive finite inputs and every
  precision. The code evaluated at \<open>a = 2^70\<close> and \<open>b = 1\<close>, both of precision 53, with
  a destination of precision 0: after ten passes \<open>a2\<close> and \<open>b2\<close> differ by one unit in
  the last place of the 117-bit working precision, which is \<open>2^-51\<close> and not below the
  threshold \<open>2^-54\<close>; the eleventh pass reproduces the same three values, so the loop
  never exits and AGM does not return.
\<close>

theorem AGM_diverges:
  "AGM new_Float (NewFloat (F64 False 1 70)) (NewFloat (F64 False 1 0)) = None"
proof -
  have "AGM_loop agm70_lim agm70_o agm70_a agm70_b = AGM_loop agm70_lim agm70_o10 agm70_a10 agm70_b10"
    by (rule AGM_loop_iter [OF agm70_run])
  also have "\<dots> = None"
    by (rule AGM_loop_fix [OF agm70_fixed agm70_continue])
  finally show ?thesis by (simp add: AGM_def agm70_start)
qed

subsection \<open>Round\<close>








subsection \<open>Log\<close>

text \<open>Squaring a Float that is its own square, below \<open>lim\<close>, goes on for ever.\<close>

lemma Log_square_stuck:
  assumes m: "Mul o0 o0 o0 = Inr o0" and c: "Cmp o0 lim < 0"
  shows "Log_square lim o0 k = None"
proof -
  have ne: "(lim', o') \<noteq> (lim, o0)" if "Log_square lim' o' k' = Some y" for lim' o' k' y
    by (rule Log_square.raw_induct [where P = "\<lambda>l o1 k y. (l, o1) \<noteq> (lim, o0)", OF _ that])
      (auto simp: m c, blast)
  show ?thesis
  proof (cases "Log_square lim o0 k")
    case None
    then show ?thesis .
  next
    case (Some y)
    from ne [OF this] show ?thesis by simp
  qed
qed

lemma x1_prec: "Prec (SetPrec new_Float 53) = 53" by code_simp
lemma x1_signbit: "\<not> Signbit x_near_one" by code_simp
lemma x1_sign: "Sign x_near_one = 1" by code_simp
lemma x1_isinf: "\<not> IsInf x_near_one" by code_simp
lemma x1_cmp: "Cmp x_near_one (SetPrec (NewFloat (F64 False 1 0)) 117) = 1" by code_simp
lemma x1_valid: "valid x_near_one" by code_simp
lemma x1_rounds_to_one:
  "Set (SetPrec (SetPrec new_Float 53) 117) x_near_one = SetPrec (NewFloat (F64 False 1 0)) 117"
  by code_simp
lemma x1_mul:
  "Mul (SetPrec (NewFloat (F64 False 1 0)) 117) (SetPrec (NewFloat (F64 False 1 0)) 117)
     (SetPrec (NewFloat (F64 False 1 0)) 117) = Inr (SetPrec (NewFloat (F64 False 1 0)) 117)"
  by code_simp
lemma x1_below:
  "Cmp (SetPrec (NewFloat (F64 False 1 0)) 117)
     (SetMantExp new_Float (SetPrec (NewFloat (F64 False 2 0)) 117) 58) < 0"
  by code_simp

text \<open>
  C1. For every positive finite \<open>x\<close> and every precision \<open>p\<close> the round trips
  \<open>Exp(Log(x))\<close> and \<open>Log(Exp(x))\<close>, computed into destinations of precision \<open>p\<close>, are
  to equal \<open>x\<close> within one unit in the last place. The code evaluated at
  \<open>x = 1 + 2^-120\<close> (precision 121) and \<open>p = 53\<close>: \<open>Log(o, x)\<close> finds \<open>x > 1\<close>, copies
  \<open>x\<close> into \<open>o\<close> at the working precision 117, where it rounds to 1, and then squares
  \<open>o\<close> until it reaches \<open>2^59\<close>, which 1 never does. Log does not return, whatever the pi
  cache holds, so \<open>Exp(Log(x))\<close> has no value.
\<close>

theorem Log_diverges: "Log (SetPrec new_Float 53) x_near_one s = None"
proof -
  have "Log (SetPrec new_Float 53) x_near_one s =
      Log_agm (AGM new_Float) (SetPrec (NewFloat (F64 False 1 0)) 117) False 117
        (SetPrec (NewFloat (F64 False 1 0)) 117) (SetPrec (NewFloat (F64 False 2 0)) 117)
        (SetPrec (NewFloat (F64 False 4 0)) 117) s"
    by (simp add: Log_def Let_def x1_prec x1_signbit x1_sign x1_isinf x1_cmp x1_rounds_to_one)
  also have "\<dots> = None"
    by (simp add: Log_agm_def Let_def bnd_def Log_square_stuck [OF x1_mul x1_below])
  finally show ?thesis .
qed

subsection \<open>The pi cache\<close>

lemma fprec_rounded: "fprec (rounded z ng m e st) = fprec z"
  by (simp add: rounded_def setval_def split: prod.splits form.splits)

lemma fprec_round_self: "fprec (round_self z) = fprec z"
  by (simp add: round_self_def fprec_rounded)

lemma fprec_SetPrec:
  "fprec (SetPrec z p) = (if p = 0 then 0 else if int p > 4294967295 then MaxPrec else p)"
  by (simp add: SetPrec_def Let_def setval_def fprec_round_self)

lemma piCalc_prec:
  assumes "piCalc a = Some (Inr r)"
  shows "fprec r = (if Prec a = 0 then 0 else if int (Prec a) > 4294967295 then MaxPrec else Prec a)"
  using assms
  by (auto simp: piCalc_def Let_def bnd_def fprec_SetPrec split: option.splits sum.splits prod.splits)

text \<open>
  C9. The precision of the pi cache never decreases: whenever a call of \<open>cachedPi\<close> or of
  \<open>Pi\<close>, at any requested precision, returns, the cached value afterwards has at least
  the precision of the cached value before (and again a precision that fits \<^verbatim>\<open>uint32\<close>,
  so that this holds along any sequence of calls). A call that panics or does not return
  stores nothing.
\<close>

theorem piCache_monotone:
  assumes wf: "fprec (piCache s) \<le> MaxPrec"
  shows "(cache_after (cachedPi prec s) = Some c \<longrightarrow>
            Prec (piCache s) \<le> Prec c \<and> fprec c \<le> MaxPrec) \<and>
         (cache_after (Pi a s) = Some c2 \<longrightarrow>
            Prec (piCache s) \<le> Prec c2 \<and> fprec c2 \<le> MaxPrec)"
proof -
  have P: "Prec (piCache s) \<le> Prec (piCache t) \<and> fprec (piCache t) \<le> MaxPrec"
    if "Pi b s = Some (Inr (x, t))" for b x t
  proof (cases "Prec b = 0 \<or> enablePiCache s \<and> Prec b \<le> Prec (loadPi s)")
    case True
    with that wf show ?thesis by (auto simp: Pi_def Let_def split: if_splits)
  next
    case False
    with that obtain c where c: "piCalc b = Some (Inr c)"
      and t: "t = (if enablePiCache s \<and> Prec (loadPi s) < Prec b then s\<lparr>piCache := Copy new_Float c\<rparr> else s)"
      by (auto simp: Pi_def Let_def bnd_def split: option.splits sum.splits if_splits)
    from piCalc_prec [OF c] False wf show ?thesis
      by (auto simp: t Copy_def Prec_def loadPi_def MaxPrec_def split: if_splits)
  qed
  have C: "Prec (piCache s) \<le> Prec (piCache s') \<and> fprec (piCache s') \<le> MaxPrec"
    if c: "cachedPi prec s = Some (Inr (r, s'))" for r s'
  proof (cases "enablePiCache s")
    case False
    with c have "Pi (SetPrec new_Float prec) s = Some (Inr (r, s'))" by (simp add: cachedPi_def)
    from P [OF this] show ?thesis .
  next
    case True
    show ?thesis
    proof (cases "Prec (piCache s) \<ge> prec")
      case True
      with c \<open>enablePiCache s\<close> wf show ?thesis by (simp add: cachedPi_def Let_def)
    next
      case False
      with c \<open>enablePiCache s\<close> obtain v where v: "piCalc (SetPrec new_Float prec) = Some (Inr v)"
        and s': "s' = s\<lparr>piCache := v\<rparr>"
        by (auto simp: cachedPi_def Let_def bnd_def split: option.splits sum.splits)
      from piCalc_prec [OF v] False wf show ?thesis
        by (auto simp: s' Prec_def fprec_SetPrec MaxPrec_def split: if_splits)
    qed
  qed
  show ?thesis
  proof (rule conjI; rule impI)
    assume "cache_after (cachedPi prec s) = Some c"
    then obtain r s' where "cachedPi prec s = Some (Inr (r, s'))" and "c = piCache s'"
      by (auto simp: cache_after_def split: option.splits sum.splits)
    with C show "Prec (piCache s) \<le> Prec c \<and> fprec c \<le> MaxPrec" by simp
  next
    assume "cache_after (Pi a s) = Some c2"
    then obtain r s' where "Pi a s = Some (Inr (r, s'))" and "c2 = piCache s'"
      by (auto simp: cache_after_def split: option.splits sum.splits)
    with P show "Prec (piCache s) \<le> Prec c2 \<and> fprec c2 \<le> MaxPrec" by simp
  qed
qed

lemma small_wf: "fprec (piCache pi_small_state) \<le> MaxPrec"
proof -
  have "fprec (piCache pi_small_state) = 2" by code_simp
  then show ?thesis by (simp add: MaxPrec_def)
qed

lemma small_cached:
  "cache_after (cachedPi 3 pi_small_state) = Some (SetPrec (NewFloat (F64 False 3 0)) 3)"
  by code_simp

lemma small_Pi:
  "cache_after (Pi (SetPrec new_Float 3) pi_small_state) = Some (SetPrec (NewFloat (F64 False 3 0)) 3)"
  by code_simp

text \<open>The witness: from a cache of precision 2, \<open>cachedPi(3)\<close> and \<open>Pi\<close> on a Float of
  precision 3 each compute pi anew and leave a cache of precision 3.\<close>

theorem piCache_monotone_witness:
  "fprec (piCache pi_small_state) \<le> MaxPrec \<and>
   cache_after (cachedPi 3 pi_small_state) = Some (SetPrec (NewFloat (F64 False 3 0)) 3) \<and>
   cache_after (Pi (SetPrec new_Float 3) pi_small_state) = Some (SetPrec (NewFloat (F64 False 3 0)) 3) \<and>
   Prec (piCache pi_small_state) \<le> Prec (SetPrec (NewFloat (F64 False 3 0)) 3) \<and>
   fprec (SetPrec (NewFloat (F64 False 3 0)) 3) \<le> MaxPrec"
  using piCache_monotone [OF small_wf, of 3 "SetPrec (NewFloat (F64 False 3 0)) 3"
      "SetPrec new_Float 3" "SetPrec (NewFloat (F64 False 3 0)) 3"]
    small_wf small_cached small_Pi
  by simp

subsection \<open>The domain of Log\<close>

text \<open>None of the arithmetic of \<^verbatim>\<open>math/big\<close> raises the package's own \<^verbatim>\<open>ErrNaN\<close>, so
  the only place where \<^verbatim>\<open>Log\<close> can raise it is its sign test.\<close>

lemma ops_no_ErrNaN:
  "Add z x y \<noteq> Inl (ErrNaN m)" "Sub z x y \<noteq> Inl (ErrNaN m)" "Mul z x y \<noteq> Inl (ErrNaN m)"
  "Quo z x y \<noteq> Inl (ErrNaN m)" "Sqrt z x \<noteq> Inl (ErrNaN m)"
  by (simp_all add: Add_def Sub_def Mul_def Quo_def Sqrt_def Let_def)

lemma is_ErrNaN_iff: "is_ErrNaN r \<longleftrightarrow> (\<exists>m. r = Some (Inl (ErrNaN m)))"
  by (auto simp: is_ErrNaN_def split: option.splits sum.splits error.splits)

lemma bnd_ErrNaN:
  "bnd r f = Some (Inl (ErrNaN m)) \<Longrightarrow>
     r = Some (Inl (ErrNaN m)) \<or> (\<exists>x. r = Some (Inr x) \<and> f x = Some (Inl (ErrNaN m)))"
  by (auto simp: bnd_def split: option.splits sum.splits)

lemma AGM_body_no_ErrNaN: "AGM_body o0 a b \<noteq> Inl (ErrNaN m)"
  using ops_no_ErrNaN
  by (auto simp: AGM_body_def bindE_def Let_def split: sum.splits)

lemma AGM_loop_no_ErrNaN:
  assumes "AGM_loop lim o0 a b = Some y"
  shows "y \<noteq> Inl (ErrNaN m)"
  by (rule AGM_loop.raw_induct [where P = "\<lambda>_ _ _ _ r. r \<noteq> Inl (ErrNaN m)", OF _ assms])
    (auto simp: AGM_body_no_ErrNaN split: sum.splits if_splits; blast)

lemma AGM_no_ErrNaN: "AGM o0 a b \<noteq> Some (Inl (ErrNaN m))"
  using AGM_loop_no_ErrNaN
  by (fastforce simp: AGM_def split: prod.splits option.splits sum.splits)

lemma Log_square_no_ErrNaN:
  assumes "Log_square lim o0 k = Some y"
  shows "y \<noteq> Inl (ErrNaN m)"
  by (rule Log_square.raw_induct [where P = "\<lambda>_ _ _ r. r \<noteq> Inl (ErrNaN m)", OF _ assms])
    (auto simp: ops_no_ErrNaN split: sum.splits if_splits; blast)

lemma piCalc_loop_no_ErrNaN:
  assumes "piCalc_loop lim a b t x y = Some r"
  shows "r \<noteq> Inl (ErrNaN m)"
  by (rule piCalc_loop.raw_induct [where P = "\<lambda>_ _ _ _ _ _ r. r \<noteq> Inl (ErrNaN m)",
        of "(((((lim, a), b), t), x), y)" r, unfolded prod.case, OF _ assms])
    (auto simp: ops_no_ErrNaN Let_def split: sum.splits if_splits; blast)

lemma piCalc_no_ErrNaN: "piCalc a \<noteq> Some (Inl (ErrNaN m))"
proof
  assume "piCalc a = Some (Inl (ErrNaN m))"
  then show False
    unfolding piCalc_def Let_def
    by (auto dest!: bnd_ErrNaN simp: ops_no_ErrNaN dest: piCalc_loop_no_ErrNaN split: prod.splits)
qed

lemma Pi_no_ErrNaN: "Pi a s \<noteq> Some (Inl (ErrNaN m))"
proof
  assume "Pi a s = Some (Inl (ErrNaN m))"
  then show False
    by (auto simp: Pi_def Let_def piCalc_no_ErrNaN dest!: bnd_ErrNaN split: if_splits)
qed

lemma cachedPi_no_ErrNaN: "cachedPi prec s \<noteq> Some (Inl (ErrNaN m))"
proof
  assume "cachedPi prec s = Some (Inl (ErrNaN m))"
  then show False
    by (auto simp: cachedPi_def Let_def piCalc_no_ErrNaN Pi_no_ErrNaN dest!: bnd_ErrNaN split: if_splits)
qed

lemma Log_agm_no_ErrNaN:
  assumes mean: "\<And>a b m. mean a b \<noteq> Some (Inl (ErrNaN m))"
  shows "Log_agm mean o0 neg prec one two four s \<noteq> Some (Inl (ErrNaN m))"
proof
  assume "Log_agm mean o0 neg prec one two four s = Some (Inl (ErrNaN m))"
  then show False
    unfolding Log_agm_def Let_def pi0_def
    by (auto dest!: bnd_ErrNaN simp: ops_no_ErrNaN mean cachedPi_no_ErrNaN
          dest: Log_square_no_ErrNaN split: prod.splits)
qed

lemma NewFloat_one:
  "NewFloat (F64 False 1 0) =
     \<lparr>fprec = 53, fmode = ToNearestEven, fform = Ffinite, fneg = False, fmant = 1, fexp = 0\<rparr>"
  by code_simp

lemma SetPrec_one:
  "53 \<le> p \<Longrightarrow> SetPrec (NewFloat (F64 False 1 0)) p
     = (NewFloat (F64 False 1 0))\<lparr>fprec := (if int p > 4294967295 then MaxPrec else p)\<rparr>"
  by (simp add: SetPrec_def NewFloat_one Let_def MaxPrec_def)

lemma Cmp_fprec: "Cmp x (y\<lparr>fprec := p\<rparr>) = Cmp x y"
  by (simp add: Cmp_def ord_def ucmp_def Let_def)

lemma Cmp_one_finite:
  "Cmp z (NewFloat (F64 False 1 0)) = 0 \<Longrightarrow> fform z = Ffinite \<and> \<not> fneg z"
  by (auto simp: Cmp_def ord_def NewFloat_one Let_def split: form.splits if_splits)

lemma Set_gzero: "Sign (Set o1 gzero) = 0 \<and> \<not> Signbit (Set o1 gzero)"
  by (simp add: Set_def gzero_def new_Float_def setval_def Let_def Sign_def Signbit_def round_self_def)

lemma Set_inf: "fform z = Finf \<Longrightarrow> fform (Set o1 z) = Finf \<and> fneg (Set o1 z) = fneg z"
  by (simp add: Set_def setval_def Let_def round_self_def)

text \<open>C3. \<^verbatim>\<open>Log(o, z)\<close> panics with the package's \<^verbatim>\<open>ErrNaN\<close> exactly when the sign bit of
  \<^verbatim>\<open>z\<close> is set (every negative \<^verbatim>\<open>z\<close>, -0 and -Inf included); the panic is the outcome
  \<^verbatim>\<open>Inl\<close>, not a returned Float. On the boundary inputs it returns, leaving the store as
  it was: for +0 the result is -Inf, for +Inf it is +Inf, and for a \<^verbatim>\<open>z\<close> that compares
  equal to 1 it is +0. This holds for every destination \<^verbatim>\<open>o\<close>, every \<^verbatim>\<open>z\<close> and every
  state of the pi cache.\<close>

theorem Log_domain:
  "(is_ErrNaN (Log o0 z s) \<longleftrightarrow> Signbit z) \<and>
   (\<not> Signbit z \<and> Sign z = 0 \<longrightarrow> (\<exists>r. Log o0 z s = Some (Inr (r, s)) \<and> IsInf r \<and> Signbit r)) \<and>
   (\<not> Signbit z \<and> IsInf z \<longrightarrow> (\<exists>r. Log o0 z s = Some (Inr (r, s)) \<and> IsInf r \<and> \<not> Signbit r)) \<and>
   (Cmp z (NewFloat (F64 False 1 0)) = 0 \<longrightarrow>
      (\<exists>r. Log o0 z s = Some (Inr (r, s)) \<and> Sign r = 0 \<and> \<not> Signbit r))"
proof (intro conjI impI)
  show "is_ErrNaN (Log o0 z s) \<longleftrightarrow> Signbit z"
  proof
    assume "is_ErrNaN (Log o0 z s)"
    then obtain m where m: "Log o0 z s = Some (Inl (ErrNaN m))" by (auto simp: is_ErrNaN_iff)
    show "Signbit z"
    proof (rule ccontr)
      assume "\<not> Signbit z"
      with m show False
        using Log_agm_no_ErrNaN [of "AGM new_Float", OF AGM_no_ErrNaN]
        by (auto simp: Log_def Let_def ops_no_ErrNaN dest!: bnd_ErrNaN split: if_splits)
    qed
  next
    assume "Signbit z"
    then show "is_ErrNaN (Log o0 z s)" by (simp add: Log_def Let_def is_ErrNaN_def)
  qed
next
  assume "\<not> Signbit z \<and> Sign z = 0"
  then show "\<exists>r. Log o0 z s = Some (Inr (r, s)) \<and> IsInf r \<and> Signbit r"
    by (simp add: Log_def Let_def SetInf_def setval_def IsInf_def Signbit_def)
next
  assume a: "\<not> Signbit z \<and> IsInf z"
  then have "Sign z \<noteq> 0" by (simp add: Sign_def IsInf_def)
  with a show "\<exists>r. Log o0 z s = Some (Inr (r, s)) \<and> IsInf r \<and> \<not> Signbit r"
    by (simp add: Log_def Let_def IsInf_def Signbit_def Set_inf)
next
  assume c: "Cmp z (NewFloat (F64 False 1 0)) = 0"
  from Cmp_one_finite [OF c] have z: "\<not> Signbit z" "Sign z \<noteq> 0" "\<not> IsInf z"
    by (simp_all add: Signbit_def Sign_def IsInf_def)
  have "Cmp z (SetPrec (NewFloat (F64 False 1 0)) (p + 64)) = 0" for p
    using c by (simp add: SetPrec_one Cmp_fprec)
  with z show "\<exists>r. Log o0 z s = Some (Inr (r, s)) \<and> Sign r = 0 \<and> \<not> Signbit r"
    by (simp add: Log_def Let_def Set_gzero)
qed

text \<open>The witness: \<^verbatim>\<open>Log\<close> of -0 (a panic), of 1 (no panic, result +0), of +0 and of
  +Inf, each with a fresh destination.\<close>

theorem Log_domain_witness:
  "(Signbit (Neg new_Float gzero) \<and> is_ErrNaN (Log new_Float (Neg new_Float gzero) init_state)) \<and>
   (\<not> Signbit gonep \<and> \<not> is_ErrNaN (Log new_Float gonep init_state)) \<and>
   (\<not> Signbit gzero \<and> Sign gzero = 0 \<and>
      (\<exists>r. Log new_Float gzero init_state = Some (Inr (r, init_state)) \<and> IsInf r \<and> Signbit r)) \<and>
   (\<not> Signbit pinf \<and> IsInf pinf \<and>
      (\<exists>r. Log new_Float pinf init_state = Some (Inr (r, init_state)) \<and> IsInf r \<and> \<not> Signbit r)) \<and>
   (Cmp gonep (NewFloat (F64 False 1 0)) = 0 \<and>
      (\<exists>r. Log new_Float gonep init_state = Some (Inr (r, init_state)) \<and> Sign r = 0 \<and> \<not> Signbit r))"
proof -
  have a: "Signbit (Neg new_Float gzero)" by code_simp
  have b: "\<not> Signbit gonep" by code_simp
  have c: "\<not> Signbit gzero \<and> Sign gzero = 0" by code_simp
  have d: "\<not> Signbit pinf \<and> IsInf pinf" by code_simp
  have e: "Cmp gonep (NewFloat (F64 False 1 0)) = 0" by code_simp
  show ?thesis
    using a b c d e
      Log_domain [of new_Float "Neg new_Float gzero" init_state]
      Log_domain [of new_Float gonep init_state]
      Log_domain [of new_Float gzero init_state]
      Log_domain [of new_Float pinf init_state]
    by simp
qed

subsection \<open>Exp with the destination as its argument\<close>

text \<open>What a call leaves alone: Log and the closure of Exp change no Float other than
  \<^verbatim>\<open>p\<close>, and Exp changes none of the Floats that existed before the call other than its
  destination.\<close>

lemma bnd_Inr:
  "bnd r f = Some (Inr y) \<Longrightarrow> \<exists>x. r = Some (Inr x) \<and> f x = Some (Inr y)"
  by (auto simp: bnd_def split: option.splits sum.splits)

lemma cachedPi_frame:
  "cachedPi prec s = Some (Inr (r, s')) \<Longrightarrow> heap s' = heap s \<and> nxt s' = nxt s"
  by (auto simp: cachedPi_def Pi_def Let_def dest!: bnd_Inr split: if_splits)

lemma Log_agm_frame:
  "Log_agm mean o0 neg prec one two four s = Some (Inr (r, s')) \<Longrightarrow> heap s' = heap s \<and> nxt s' = nxt s"
  unfolding Log_agm_def Let_def pi0_def
  by (auto dest!: bnd_Inr dest: cachedPi_frame split: prod.splits)

lemma Log1_frame:
  "Log1 z s = Some (Inr (r, s')) \<Longrightarrow> heap s' = heap s \<and> nxt s' = nxt s"
  unfolding Log1_def Let_def
  by (auto dest!: bnd_Inr dest: Log_agm_frame split: if_splits)

lemma Exp_f_frame:
  "Exp_f p z t s = Some (Inr (r, s')) \<Longrightarrow> nxt s' = nxt s \<and> (\<forall>i. i \<noteq> p \<longrightarrow> heap s' i = heap s i)"
  unfolding Exp_f_def
  by (auto dest!: bnd_Inr dest: Log1_frame simp: put_def split: prod.splits)

lemma newton_loop_frame:
  assumes "newton_loop f g prec dPrec s = Some y"
  shows "f = Exp_f p z \<longrightarrow> (\<forall>x s'. y = Inr (x, s') \<longrightarrow>
           nxt s' = nxt s \<and> (\<forall>i. i \<noteq> p \<longrightarrow> heap s' i = heap s i))"
  by (rule newton_loop.raw_induct [where P = "\<lambda>f g prec dPrec s y. f = Exp_f p z \<longrightarrow> (\<forall>x s'. y = Inr (x, s') \<longrightarrow>
           nxt s' = nxt s \<and> (\<forall>i. i \<noteq> p \<longrightarrow> heap s' i = heap s i))", OF _ assms])
    (auto split: if_splits option.splits sum.splits dest!: Exp_f_frame)

lemma newton_frame:
  "newton (Exp_f p z) g dPrec s = Some (Inr (x, s')) \<Longrightarrow>
     nxt s' = nxt s \<and> (\<forall>i. i \<noteq> p \<longrightarrow> heap s' i = heap s i)"
  unfolding newton_def Let_def
  using newton_loop_frame [of "Exp_f p z" _ _ _ s _ p z]
  by (auto dest!: bnd_Inr split: prod.splits)

lemma Exp_frame:
  assumes "Exp kern o' z s0 = Some y"
  shows "\<forall>a s'. y = Inr (a, s') \<longrightarrow>
           nxt s0 \<le> nxt s' \<and> (\<forall>i. i < nxt s0 \<and> i \<noteq> o' \<longrightarrow> heap s' i = heap s0 i)"
proof (rule Exp.raw_induct [where P = "\<lambda>kern o' z s0 y. \<forall>a s'. y = Inr (a, s') \<longrightarrow>
           nxt s0 \<le> nxt s' \<and> (\<forall>i. i < nxt s0 \<and> i \<noteq> o' \<longrightarrow> heap s' i = heap s0 i)", OF _ assms],
       intro allI impI)
  fix E :: "(float64 \<Rightarrow> float64) \<Rightarrow> nat \<Rightarrow> nat \<Rightarrow> state \<Rightarrow> (error + nat \<times> state) option"
    and kern :: "float64 \<Rightarrow> float64" and o' z a :: nat and s0 s' :: state
    and y :: "error + nat \<times> state"
  assume IH: "\<And>kern o' z s0 y. E kern o' z s0 = Some y \<Longrightarrow> \<forall>a s'. y = Inr (a, s') \<longrightarrow>
           nxt s0 \<le> nxt s' \<and> (\<forall>i. i < nxt s0 \<and> i \<noteq> o' \<longrightarrow> heap s' i = heap s0 i)"
  assume y: "y = Inr (a, s')"
  define s where "s = (if Prec (heap s0 o') = 0 then put o' (SetPrec (heap s0 o') (Prec (heap s0 z))) s0 else s0)"
  define ps where "ps = (if o' = z then alloc (SetPrec new_Float (Prec (heap s z))) s else (o', s))"
  define p where "p = fst ps"
  define s1 where "s1 = snd ps"
  define zf where "zf = mathExp kern (Float64 (heap s1 z))"
  define hs where "hs = (\<lambda>hz. alloc hz s1)"
  assume "(let s = (if Prec (heap s0 o') = 0 then put o' (SetPrec (heap s0 o') (Prec (heap s0 z))) s0 else s0) in
      if Sign (heap s z) = 0 then Some (Inr (o', put o' (SetFloat64 (heap s o') (F64 False 1 0)) s))
      else if IsInf (heap s z) then
        (if Sign (heap s z) < 0 then Some (Inr (o', put o' (Set (heap s o') gzero) s))
         else Some (Inr (o', put o' (Set (heap s o') (heap s z)) s)))
      else
        let ps = (if o' = z then alloc (SetPrec new_Float (Prec (heap s z))) s else (o', s));
            p = fst ps;
            s1 = snd ps;
            zf = mathExp kern (Float64 (heap s1 z))
        in if IsInf64 zf \<or> IsZero64 zf then
             (case Mul (SetPrec new_Float (Prec (heap s1 p) + 64)) (heap s1 z) (NewFloat (F64 False 1 (- 1))) of
                Inl e \<Rightarrow> Some (Inl e)
              | Inr hz \<Rightarrow>
                  (let hs = alloc hz s1; halfZ = fst hs; s2 = snd hs in
                   Option.bind (E kern halfZ halfZ s2) (\<lambda>r.
                     case r of
                       Inl e \<Rightarrow> Some (Inl e)
                     | Inr (halfExp, s3) \<Rightarrow>
                         (case Mul (heap s3 p) (heap s3 halfExp) (heap s3 halfExp) of
                            Inl e \<Rightarrow> Some (Inl e)
                          | Inr v \<Rightarrow> Some (Inr (p, put p v s3))))))
           else
             (let guess = NewFloat zf in
              case newton (Exp_f p z) guess (Prec (heap s1 z)) s1 of
                None \<Rightarrow> None
              | Some (Inl e) \<Rightarrow> Some (Inl e)
              | Some (Inr (x, s2)) \<Rightarrow> Some (Inr (o', put o' (Set (heap s2 o') x) s2)))) = Some y"
  then have eq: "(if Sign (heap s z) = 0 then Some (Inr (o', put o' (SetFloat64 (heap s o') (F64 False 1 0)) s))
      else if IsInf (heap s z) then
        (if Sign (heap s z) < 0 then Some (Inr (o', put o' (Set (heap s o') gzero) s))
         else Some (Inr (o', put o' (Set (heap s o') (heap s z)) s)))
      else
        if IsInf64 zf \<or> IsZero64 zf then
             (case Mul (SetPrec new_Float (Prec (heap s1 p) + 64)) (heap s1 z) (NewFloat (F64 False 1 (- 1))) of
                Inl e \<Rightarrow> Some (Inl e)
              | Inr hz \<Rightarrow>
                   Option.bind (E kern (fst (hs hz)) (fst (hs hz)) (snd (hs hz))) (\<lambda>r.
                     case r of
                       Inl e \<Rightarrow> Some (Inl e)
                     | Inr (halfExp, s3) \<Rightarrow>
                         (case Mul (heap s3 p) (heap s3 halfExp) (heap s3 halfExp) of
                            Inl e \<Rightarrow> Some (Inl e)
                          | Inr v \<Rightarrow> Some (Inr (p, put p v s3)))))
           else
             (case newton (Exp_f p z) (NewFloat zf) (Prec (heap s1 z)) s1 of
                None \<Rightarrow> None
              | Some (Inl e) \<Rightarrow> Some (Inl e)
              | Some (Inr (x, s2)) \<Rightarrow> Some (Inr (o', put o' (Set (heap s2 o') x) s2)))) = Some (Inr (a, s'))"
    unfolding Let_def s_def ps_def p_def s1_def zf_def hs_def y .
  have fs: "nxt s = nxt s0" "\<And>i. i \<noteq> o' \<Longrightarrow> heap s i = heap s0 i"
    by (simp_all add: s_def put_def)
  have f1: "nxt s \<le> nxt s1" "\<And>i. i < nxt s \<Longrightarrow> heap s1 i = heap s i" "p = o' \<or> nxt s \<le> p"
    by (auto simp: s1_def p_def ps_def alloc_def)
  have f2: "nxt s1 \<le> nxt (snd (hs hz))" "\<And>i. i < nxt s1 \<Longrightarrow> heap (snd (hs hz)) i = heap s1 i"
           "fst (hs hz) = nxt s1" for hz
    by (auto simp: hs_def alloc_def)
  consider (triv) "Sign (heap s z) = 0 \<or> IsInf (heap s z)"
    | (red) "\<not> (Sign (heap s z) = 0 \<or> IsInf (heap s z))" "IsInf64 zf \<or> IsZero64 zf"
    | (newt) "\<not> (Sign (heap s z) = 0 \<or> IsInf (heap s z))" "\<not> (IsInf64 zf \<or> IsZero64 zf)"
    by blast
  then show "nxt s0 \<le> nxt s' \<and> (\<forall>i. i < nxt s0 \<and> i \<noteq> o' \<longrightarrow> heap s' i = heap s0 i)"
  proof cases
    case triv
    with eq have "a = o' \<and> (\<exists>v. s' = put o' v s)" by (auto split: if_splits)
    then show ?thesis using fs by (auto simp: put_def)
  next
    case red
    obtain hz halfExp s3 v where
      E: "E kern (fst (hs hz)) (fst (hs hz)) (snd (hs hz)) = Some (Inr (halfExp, s3))"
      and r: "a = p" "s' = put p v s3"
    proof (cases "Mul (SetPrec new_Float (Prec (heap s1 p) + 64)) (heap s1 z) (NewFloat (F64 False 1 (- 1)))")
      case (Inl e)
      with eq red show ?thesis by simp
    next
      case (Inr hz)
      with eq red obtain r where E0: "E kern (fst (hs hz)) (fst (hs hz)) (snd (hs hz)) = Some r"
        and c: "(case r of Inl e \<Rightarrow> Some (Inl e)
                 | Inr (halfExp, s3) \<Rightarrow>
                     (case Mul (heap s3 p) (heap s3 halfExp) (heap s3 halfExp) of
                        Inl e \<Rightarrow> Some (Inl e)
                      | Inr v \<Rightarrow> Some (Inr (p, put p v s3)))) = Some (Inr (a, s'))"
        by (auto simp: bind_eq_Some_conv)
      from c obtain halfExp s3 v where "r = Inr (halfExp, s3)" "a = p" "s' = put p v s3"
        by (cases r) (auto split: sum.splits prod.splits)
      with E0 that show ?thesis by blast
    qed
    from IH [OF E] have i3: "nxt (snd (hs hz)) \<le> nxt s3"
      "\<And>i. i < nxt (snd (hs hz)) \<Longrightarrow> i \<noteq> fst (hs hz) \<Longrightarrow> heap s3 i = heap (snd (hs hz)) i"
      by auto
    show ?thesis
    proof (intro conjI allI impI)
      show "nxt s0 \<le> nxt s'" using r i3(1) f2(1) [of hz] f1(1) fs(1) by (simp add: put_def)
    next
      fix i assume i: "i < nxt s0 \<and> i \<noteq> o'"
      then have "i \<noteq> p" using f1(3) fs(1) by auto
      moreover have "i < nxt s1" "i < nxt s" using i f1(1) fs(1) by auto
      moreover have "i \<noteq> fst (hs hz)" using f2(3) [of hz] \<open>i < nxt s1\<close> by simp
      moreover have "i < nxt (snd (hs hz))" using f2(1) [of hz] \<open>i < nxt s1\<close> by simp
      ultimately show "heap s' i = heap s0 i"
        using r i i3(2) [of i] f2(2) [of i hz] f1(2) [of i] fs(2) [of i] by (simp add: put_def)
    qed
  next
    case newt
    with eq obtain x s2 where
      N: "newton (Exp_f p z) (NewFloat zf) (Prec (heap s1 z)) s1 = Some (Inr (x, s2))"
      and r: "a = o'" "s' = put o' (Set (heap s2 o') x) s2"
      by (auto split: option.splits sum.splits prod.splits)
    from newton_frame [OF N] have n: "nxt s2 = nxt s1" "\<And>i. i \<noteq> p \<Longrightarrow> heap s2 i = heap s1 i"
      by auto
    show ?thesis
    proof (intro conjI allI impI)
      show "nxt s0 \<le> nxt s'" using r n(1) f1(1) fs(1) by (simp add: put_def)
    next
      fix i assume i: "i < nxt s0 \<and> i \<noteq> o'"
      then have "i \<noteq> p" using f1(3) fs(1) by auto
      moreover have "i < nxt s" using i fs(1) by auto
      ultimately show "heap s' i = heap s0 i"
        using r i n(2) [of i] f1(2) [of i] fs(2) [of i] by (simp add: put_def)
    qed
  qed
qed

lemma fst_alloc: "fst (alloc v s) = nxt s"
  by (simp add: alloc_def)

lemma Exp_alias_reduction:
  assumes nz: "Sign (heap s0 z) \<noteq> 0" and fin: "\<not> IsInf (heap s0 z)" and pr: "Prec (heap s0 z) \<noteq> 0"
    and zf: "IsInf64 (mathExp kern (Float64 (heap s0 z))) \<or> IsZero64 (mathExp kern (Float64 (heap s0 z)))"
    and lt: "z < nxt s0"
    and ex: "Exp kern z z s0 = Some (Inr (a, s'))"
  shows "a = nxt s0 \<and> heap s' z = heap s0 z"
proof -
  define s1 where "s1 = snd (alloc (SetPrec new_Float (Prec (heap s0 z))) s0)"
  define p where "p = nxt s0"
  have h1: "heap s1 z = heap s0 z" "nxt s1 = nxt s0 + 1"
    using lt by (auto simp: s1_def alloc_def)
  have h2: "heap (snd (alloc hz s1)) z = heap s0 z" "nxt (snd (alloc hz s1)) = nxt s0 + 2" for hz
    using lt h1 by (auto simp: alloc_def)
  have "\<exists>hz halfExp s3 v.
          Exp kern (nxt s1) (nxt s1) (snd (alloc hz s1)) = Some (Inr (halfExp, s3)) \<and>
          a = p \<and> s' = put p v s3"
  proof (cases "Mul (SetPrec new_Float (Prec (heap s1 p) + 64)) (heap s0 z) (NewFloat (F64 False 1 (- 1)))")
    case (Inl e)
    with ex show ?thesis
      by (subst (asm) Exp.simps)
        (simp add: Let_def fst_alloc p_def pr nz fin zf h1 s1_def [symmetric])
  next
    case (Inr hz)
    with ex have "\<exists>r. Exp kern (nxt s1) (nxt s1) (snd (alloc hz s1)) = Some r \<and>
        (case r of Inl e \<Rightarrow> Some (Inl e)
         | Inr (halfExp, s3) \<Rightarrow>
             (case Mul (heap s3 p) (heap s3 halfExp) (heap s3 halfExp) of
                Inl e \<Rightarrow> Some (Inl e)
              | Inr v \<Rightarrow> Some (Inr (p, put p v s3)))) = Some (Inr (a, s'))"
      by (subst (asm) Exp.simps)
        (simp add: Let_def fst_alloc p_def pr nz fin zf h1 s1_def [symmetric] bind_eq_Some_conv
              cong: sum.case_cong prod.case_cong)
    then obtain r where E0: "Exp kern (nxt s1) (nxt s1) (snd (alloc hz s1)) = Some r"
      and c: "(case r of Inl e \<Rightarrow> Some (Inl e)
               | Inr (halfExp, s3) \<Rightarrow>
                   (case Mul (heap s3 p) (heap s3 halfExp) (heap s3 halfExp) of
                      Inl e \<Rightarrow> Some (Inl e)
                    | Inr v \<Rightarrow> Some (Inr (p, put p v s3)))) = Some (Inr (a, s'))"
      by blast
    from c obtain halfExp s3 v where "r = Inr (halfExp, s3)" "a = p" "s' = put p v s3"
      by (cases r) (auto split: sum.splits prod.splits)
    with E0 show ?thesis by blast
  qed
  then obtain hz halfExp s3 v where
      E: "Exp kern (nxt s1) (nxt s1) (snd (alloc hz s1)) = Some (Inr (halfExp, s3))"
      and r: "a = p" "s' = put p v s3"
    by blast
  from Exp_frame [OF E] have "heap s3 z = heap (snd (alloc hz s1)) z"
    using lt h1 h2 [of hz] by simp
  with r lt h2 [of hz] show ?thesis by (simp add: put_def p_def)
qed

lemma Float64_1024: "Float64 (NewFloat (F64 False 1 10)) = F64 False 1 10"
  by code_simp

text \<open>C6. At \<^verbatim>\<open>z = 1024\<close> (precision 53) the call \<^verbatim>\<open>Exp(z, z)\<close> does not do what the claim
  says. \<^verbatim>\<open>math.Exp(1024)\<close> is +Inf, so Exp reduces the argument and ends with
  \<^verbatim>\<open>return p.Mul(halfExp, halfExp)\<close>, where \<^verbatim>\<open>p\<close> is the Float that it allocated because
  \<^verbatim>\<open>p == z\<close>. In a store where \<^verbatim>\<open>z\<close> is at address 0 and the next free address is 3:
  whatever \<^verbatim>\<open>math.Exp\<close> computes on the smaller arguments, the call never returns the
  address 0; when it returns, it returns the new address 3, and the Float at address 0
  is still 1024.\<close>

theorem Exp_alias_not_written:
  "(ret_addr (Exp kern 0 0 (store3 (NewFloat (F64 False 1 10)) new_Float new_Float)) = None \<or>
    ret_addr (Exp kern 0 0 (store3 (NewFloat (F64 False 1 10)) new_Float new_Float)) = Some 3) \<and>
   (val_at 0 (Exp kern 0 0 (store3 (NewFloat (F64 False 1 10)) new_Float new_Float)) = None \<or>
    val_at 0 (Exp kern 0 0 (store3 (NewFloat (F64 False 1 10)) new_Float new_Float))
      = Some (NewFloat (F64 False 1 10)))"
proof -
  define st where "st = store3 (NewFloat (F64 False 1 10)) new_Float new_Float"
  have h: "heap st 0 = NewFloat (F64 False 1 10)" "nxt st = 3" by (simp_all add: st_def store3_def)
  have a: "Sign (NewFloat (F64 False 1 10)) \<noteq> 0" by code_simp
  have b: "\<not> IsInf (NewFloat (F64 False 1 10))" by code_simp
  have c: "Prec (NewFloat (F64 False 1 10)) \<noteq> 0" by code_simp
  have d: "IsInf64 (mathExp kern (Float64 (NewFloat (F64 False 1 10))))"
    by (simp add: Float64_1024 mathExp_def IsInf64_def)
  have "a = 3 \<and> heap s' 0 = NewFloat (F64 False 1 10)" if "Exp kern 0 0 st = Some (Inr (a, s'))" for a s'
    using Exp_alias_reduction [of st 0 kern a s'] that a b c d h by simp
  then show ?thesis
    unfolding st_def [symmetric]
    by (cases "Exp kern 0 0 st") (auto simp: ret_addr_def val_at_def split: sum.splits)
qed

end
